theory Spec2Isabelle
  imports Main "HOL-Library.Sublist"
begin

section \<open>The values handled by praw/exceptions.py\<close>

text \<open>
  The module is dynamically typed. Its functions receive strings, \<open>None\<close>, lists and
  \<open>RedditErrorItem\<close> objects, nested in each other, and branch on \<open>isinstance\<close>.
  One datatype holds these values. A \<open>RedditErrorItem\<close> carries the three attributes set
  by its \<open>__init__\<close> and the flag \<open>_called_from_reddit_api_exception\<close>.

  A \<open>string\<close> is read as a sequence of code points below 256 (Latin-1), the part of
  Python's \<open>str\<close> that a \<open>char list\<close> can hold.
\<close>

datatype pyval =
    PNone
  | PStr string
  | PList "pyval list"
  | PItem (error_type: pyval) (message: pyval) (field: pyval)
          (called_from_reddit_api_exception: bool)

datatype py_error = AttributeError | IndexError | TypeError

type_synonym 'a result = "py_error + 'a"

text \<open>\<open>RedditErrorItem.__init__(error_type, message, field=None)\<close>: the flag starts False.\<close>

definition RedditErrorItem :: "pyval \<Rightarrow> pyval \<Rightarrow> pyval \<Rightarrow> pyval" where
  "RedditErrorItem et msg fld = PItem et msg fld False"

definition isinstance_str :: "pyval \<Rightarrow> bool" where
  "isinstance_str v = (case v of PStr _ \<Rightarrow> True | _ \<Rightarrow> False)"

definition isinstance_list :: "pyval \<Rightarrow> bool" where
  "isinstance_list v = (case v of PList _ \<Rightarrow> True | _ \<Rightarrow> False)"

definition isinstance_RedditErrorItem :: "pyval \<Rightarrow> bool" where
  "isinstance_RedditErrorItem v = (case v of PItem _ _ _ _ \<Rightarrow> True | _ \<Rightarrow> False)"

text \<open>
  Truth value of an object (\<open>bool(x)\<close>, \<open>if x:\<close>): \<open>None\<close>, the empty string and the
  empty list are false; a \<open>RedditErrorItem\<close> defines neither \<open>__bool__\<close> nor
  \<open>__len__\<close>, so it is always true.
\<close>

fun py_bool :: "pyval \<Rightarrow> bool" where
  "py_bool PNone = False"
| "py_bool (PStr s) = (s \<noteq> [])"
| "py_bool (PList xs) = (xs \<noteq> [])"
| "py_bool (PItem _ _ _ _) = True"

text \<open>
  Subscription \<open>x[i]\<close> with a non-negative constant index: a list gives its element, a
  string gives the one-character string, both raise IndexError out of range; \<open>None\<close>
  and a \<open>RedditErrorItem\<close> are not subscriptable (TypeError).
\<close>

fun py_getitem :: "pyval \<Rightarrow> nat \<Rightarrow> pyval result" where
  "py_getitem (PList xs) i = (if i < length xs then Inr (xs ! i) else Inl IndexError)"
| "py_getitem (PStr s) i = (if i < length s then Inr (PStr [s ! i]) else Inl IndexError)"
| "py_getitem PNone i = Inl TypeError"
| "py_getitem (PItem _ _ _ _) i = Inl TypeError"

text \<open>
  Iteration (\<open>for x in v\<close>): over the elements of a list, over the characters of a
  string; \<open>None\<close> and a \<open>RedditErrorItem\<close> are not iterable (TypeError).
\<close>

fun py_iter :: "pyval \<Rightarrow> pyval list result" where
  "py_iter (PList xs) = Inr xs"
| "py_iter (PStr s) = Inr (map (\<lambda>c. PStr [c]) s)"
| "py_iter PNone = Inl TypeError"
| "py_iter (PItem _ _ _ _) = Inl TypeError"

subsection \<open>\<open>repr\<close> of a string\<close>

text \<open>
  CPython's \<open>unicode_repr\<close>: the quote is the single quote unless the string has a single
  quote and no double quote; the quote and the backslash are escaped with a backslash;
  tab, newline and carriage return print as \<open>\t\<close>, \<open>\n\<close>, \<open>\r\<close>; any other
  non-printable character below 256 prints as \<open>\xhh\<close> in lower-case hexadecimal.
  Below 256 the non-printable code points are 0..31, 127..160 and 173.
\<close>

definition hexdigit :: "nat \<Rightarrow> char" where
  "hexdigit n = ''0123456789abcdef'' ! (n mod 16)"

definition hex_escape :: "char \<Rightarrow> string" where
  "hex_escape c =
     [CHR 0x5C, CHR ''x'', hexdigit ((of_char c :: nat) div 16), hexdigit (of_char c)]"

definition isprintable :: "char \<Rightarrow> bool" where
  "isprintable c =
     (let n = (of_char c :: nat) in (32 \<le> n \<and> n < 127) \<or> (161 \<le> n \<and> n \<noteq> 173))"

definition repr_char :: "char \<Rightarrow> char \<Rightarrow> string" where
  "repr_char quote ch =
     (if ch = quote \<or> ch = CHR 0x5C then [CHR 0x5C, ch]
      else if ch = CHR 0x09 then [CHR 0x5C, CHR ''t'']
      else if ch = CHR 0x0A then [CHR 0x5C, CHR ''n'']
      else if ch = CHR 0x0D then [CHR 0x5C, CHR ''r'']
      else if (of_char ch :: nat) < 32 \<or> (of_char ch :: nat) = 127 then hex_escape ch
      else if (of_char ch :: nat) < 127 then [ch]
      else if \<not> isprintable ch then hex_escape ch
      else [ch])"

definition str_repr :: "string \<Rightarrow> string" where
  "str_repr s =
     (let quote = (if CHR 0x27 \<in> set s \<and> CHR 0x22 \<notin> set s then CHR 0x22 else CHR 0x27)
      in quote # concat (map (repr_char quote) s) @ [quote])"

text \<open>\<open>", ".join(parts)\<close>, as the \<open>repr\<close> of a list separates its elements.\<close>

fun join_comma :: "string list \<Rightarrow> string" where
  "join_comma [] = []"
| "join_comma [s] = s"
| "join_comma (s # t # ss) = s @ '', '' @ join_comma (t # ss)"

section \<open>\<open>RedditErrorItem\<close>: \<open>error_message\<close>, \<open>__str__\<close>, \<open>__repr__\<close>\<close>

text \<open>
  \<open>"{}".format(x)\<close> is \<open>str(x)\<close> and \<open>"{!r}".format(x)\<close> is \<open>repr(x)\<close> for the
  values above. \<open>str\<close> of a string is the string, of \<open>None\<close> it is \<open>None\<close>, of a
  list it is its \<open>repr\<close>; \<open>str\<close> of a \<open>RedditErrorItem\<close> is \<open>__str__\<close>, which
  returns \<open>error_message\<close>; its \<open>repr\<close> is \<open>__repr__\<close>, which returns the
  constructor-style string while the flag is False and \<open>str(self)\<close> once it is True.
  The class name printed is \<open>RedditErrorItem\<close>: the module defines no subclass.
  The equations of \<open>py_str\<close> and \<open>py_repr\<close> on an item are the bodies of
  \<open>__str__\<close> (line 82) and \<open>__repr__\<close> (lines 71--78); \<open>error_message\<close> is the
  property of lines 23--28, defined on items only.
\<close>

function (sequential) py_str :: "pyval \<Rightarrow> string"
  and py_repr :: "pyval \<Rightarrow> string"
  and error_message :: "pyval \<Rightarrow> string"
where
  "py_str PNone = ''None''"
| "py_str (PStr s) = s"
| "py_str (PList xs) = py_repr (PList xs)"
| "py_str (PItem et msg fld fl) = error_message (PItem et msg fld fl)"
| "py_repr PNone = ''None''"
| "py_repr (PStr s) = str_repr s"
| "py_repr (PList xs) = ''['' @ join_comma (map py_repr xs) @ '']''"
| "py_repr (PItem et msg fld fl) =
     (if \<not> fl then
        ''RedditErrorItem'' @ ''(error_type='' @ py_repr et @ '', message='' @ py_repr msg
          @ '', field='' @ py_repr fld @ '')''
      else py_str (PItem et msg fld fl))"
| "error_message (PItem et msg fld fl) =
     (let error_str = py_str et @ '': '' @ py_repr msg
      in if py_bool fld then error_str @ '' on field '' @ py_repr fld else error_str)"
  by pat_completeness auto
termination
  by (relation "inv_image (less_than <*lex*> less_than)
        (\<lambda>x. case x of
                Inl v \<Rightarrow> (size v, case v of PList _ \<Rightarrow> 3 | _ \<Rightarrow> Suc 0)
              | Inr (Inl v) \<Rightarrow> (size v, 2)
              | Inr (Inr v) \<Rightarrow> (size v, 0))")
     (auto simp: less_Suc_eq_le size_list_estimation')

section \<open>\<open>RedditErrorItem.__eq__\<close> and the operator \<open>==\<close>\<close>

text \<open>
  \<open>x == y\<close> on the values above: \<open>None\<close> equals only \<open>None\<close>, strings compare by
  content, lists and tuples element by element, values of different types are unequal
  (each side's \<open>__eq__\<close> returns \<open>NotImplemented\<close> and the identity test fails).
  Two \<open>RedditErrorItem\<close>s compare through \<open>RedditErrorItem.__eq__\<close>, that is by the
  tuples of their three attributes.
\<close>

fun py_eq :: "pyval \<Rightarrow> pyval \<Rightarrow> bool"
  and py_eq_list :: "pyval list \<Rightarrow> pyval list \<Rightarrow> bool"
where
  "py_eq PNone PNone = True"
| "py_eq (PStr s) (PStr t) = (s = t)"
| "py_eq (PList xs) (PList ys) = py_eq_list xs ys"
| "py_eq (PItem et msg fld fl) (PItem et' msg' fld' fl') =
     (py_eq et et' \<and> py_eq msg msg' \<and> py_eq fld fld')"
| "py_eq _ _ = False"
| "py_eq_list [] [] = True"
| "py_eq_list (x # xs) (y # ys) = (py_eq x y \<and> py_eq_list xs ys)"
| "py_eq_list _ _ = False"

datatype eq_result = EqBool bool | NotImplemented

text \<open>
  \<open>__eq__(self, other)\<close>: the comparison of the attribute tuples when \<open>other\<close> is a
  \<open>RedditErrorItem\<close>; otherwise \<open>super().__eq__(other)\<close>, which is \<open>object.__eq__\<close>
  and returns \<open>NotImplemented\<close> for an object other than \<open>self\<close>.
\<close>

definition RedditErrorItem_eq :: "pyval \<Rightarrow> pyval \<Rightarrow> eq_result" where
  "RedditErrorItem_eq self other =
     (if isinstance_RedditErrorItem other then
        EqBool (py_eq_list [error_type self, message self, field self]
                           [error_type other, message other, field other])
      else NotImplemented)"

section \<open>\<open>APIException\<close>: forming and parsing the exception list\<close>

text \<open>
  A name cannot start with an underscore here: \<open>private_\<close> stands for the leading
  underscore of \<open>_form_exception_list\<close>, \<open>_parse_exception_list\<close> and
  \<open>_get_old_attr\<close>. \<open>rbind\<close> passes a value on and stops at the first exception.
\<close>

definition rbind :: "'a result \<Rightarrow> ('a \<Rightarrow> 'b result) \<Rightarrow> 'b result" where
  "rbind r f = (case r of Inl e \<Rightarrow> Inl e | Inr v \<Rightarrow> f v)"

text \<open>
  The loop of \<open>_form_exception_list\<close> (lines 116--120): it walks a copy of \<open>items\<close>
  with its index and replaces in \<open>items\<close> every sub-list of length 2 by the sub-list
  with \<open>None\<close> appended; an element that is not a list is skipped.
\<close>

fun form_loop :: "nat \<Rightarrow> pyval list \<Rightarrow> pyval list \<Rightarrow> pyval list" where
  "form_loop sub_list_number [] items = items"
| "form_loop sub_list_number (sub_list # rest) items =
     (case sub_list of
        PList ys \<Rightarrow>
          if length ys = 2
          then form_loop (Suc sub_list_number) rest
                 (items[sub_list_number := PList (ys @ [PNone])])
          else form_loop (Suc sub_list_number) rest items
      | _ \<Rightarrow> form_loop (Suc sub_list_number) rest items)"

text \<open>
  \<open>_form_exception_list(cls, items, *optional_args)\<close>, three \<open>if\<close>s in sequence.
  \<open>items[0]\<close> raises IndexError on the empty list. The list branch assigns into the
  caller's list; the value returned is that same list.
\<close>

definition private_form_exception_list :: "pyval \<Rightarrow> pyval list \<Rightarrow> pyval result" where
  "private_form_exception_list items optional_args =
     (let items1 = (if isinstance_str items then PList [PList (items # optional_args)]
                    else items);
          items2 = (if isinstance_RedditErrorItem items1 then PList [items1] else items1)
      in case items2 of
           PList xs \<Rightarrow>
             rbind (py_getitem items2 0) (\<lambda>first.
               if isinstance_str first then
                 Inr (if length xs = 3 then PList [items2]
                      else PList [PList (xs @ [PNone])])
               else if isinstance_list first then Inr (PList (form_loop 0 xs xs))
               else Inr items2)
         | _ \<Rightarrow> Inr items2)"

text \<open>
  The element expression of the comprehension in \<open>_parse_exception_list\<close>
  (lines 134--140). An element that is not a \<open>RedditErrorItem\<close> is subscripted three
  times and a new item is constructed; the arguments of the constructor call are
  evaluated left to right.
\<close>

definition construct_item :: "pyval \<Rightarrow> pyval result" where
  "construct_item exception =
     rbind (py_getitem exception 0) (\<lambda>a0.
     rbind (py_getitem exception 1) (\<lambda>a1.
     rbind (py_getitem exception 2) (\<lambda>c.
     rbind (if py_bool c then py_getitem exception 2 else Inr (PStr [])) (\<lambda>a2.
       Inr (RedditErrorItem a0 a1 a2)))))"

text \<open>
  An element that is already a \<open>RedditErrorItem\<close> goes into \<open>baselist\<close> as the same
  object, not as a copy. The elements of \<open>baselist\<close> are therefore references: to the
  object at an index of the caller's list \<open>exceptions\<close>, or to a new item.
\<close>

datatype obj_ref = Caller nat | New pyval

definition parse_element :: "nat \<Rightarrow> pyval \<Rightarrow> obj_ref result" where
  "parse_element i exception =
     (if isinstance_RedditErrorItem exception then Inr (Caller i)
      else rbind (construct_item exception) (\<lambda>it. Inr (New it)))"

fun comprehension :: "nat \<Rightarrow> pyval list \<Rightarrow> obj_ref list result" where
  "comprehension i [] = Inr []"
| "comprehension i (exception # rest) =
     rbind (parse_element i exception) (\<lambda>r.
     rbind (comprehension (Suc i) rest) (\<lambda>rs. Inr (r # rs)))"

text \<open>\<open>exception._called_from_reddit_api_exception = True\<close>\<close>

definition set_called :: "pyval \<Rightarrow> pyval" where
  "set_called v = (case v of PItem et msg fld _ \<Rightarrow> PItem et msg fld True | _ \<Rightarrow> v)"

text \<open>
  The loop of lines 143--144 sets the flag on the object that each element of
  \<open>baselist\<close> refers to: in the caller's list for a reference into it, on the new item
  otherwise. \<open>deref\<close> reads the object a reference names.
\<close>

fun flag_loop :: "obj_ref list \<Rightarrow> pyval list \<Rightarrow> obj_ref list \<times> pyval list" where
  "flag_loop [] caller = ([], caller)"
| "flag_loop (Caller i # rest) caller =
     (case flag_loop rest (caller[i := set_called (caller ! i)]) of
        (rs, caller') \<Rightarrow> (Caller i # rs, caller'))"
| "flag_loop (New it # rest) caller =
     (case flag_loop rest caller of
        (rs, caller') \<Rightarrow> (New (set_called it) # rs, caller'))"

definition deref :: "pyval list \<Rightarrow> obj_ref \<Rightarrow> pyval" where
  "deref caller r = (case r of Caller i \<Rightarrow> caller ! i | New it \<Rightarrow> it)"

text \<open>
  \<open>_parse_exception_list(exceptions)\<close>. The comprehension is evaluated whole, then the
  loop runs; when the comprehension raises, the loop has not run and nothing has
  changed. The result is the pair of the list returned, read after the loop, and of
  \<open>exceptions\<close> as the caller finds it after the call.
\<close>

definition private_parse_exception_list :: "pyval \<Rightarrow> (pyval list \<times> pyval) result" where
  "private_parse_exception_list exceptions =
     rbind (py_iter exceptions) (\<lambda>xs.
     rbind (comprehension 0 xs) (\<lambda>baselist.
       case flag_loop baselist xs of
         (baselist', xs') \<Rightarrow>
           Inr (map (deref xs') baselist',
                case exceptions of PList _ \<Rightarrow> PList xs' | _ \<Rightarrow> exceptions)))"

section \<open>\<open>APIException.__init__\<close>\<close>

text \<open>
  Lines 218--221 of \<open>__init__\<close>: a string is wrapped with the optional arguments as
  one raw error, a list whose first element is a string is wrapped as one raw error,
  anything else is left as it is. \<open>items[0]\<close> raises IndexError on the empty list.
\<close>

definition init_items :: "pyval \<Rightarrow> pyval list \<Rightarrow> pyval result" where
  "init_items items optional_args =
     (if isinstance_str items then Inr (PList [PList (items # optional_args)])
      else if isinstance_list items then
        rbind (py_getitem items 0) (\<lambda>first.
          if isinstance_str first then Inr (PList [items]) else Inr items)
      else Inr items)"

text \<open>
  An instance holds the attribute \<open>items\<close> and the \<open>args\<close> that
  \<open>super().__init__(*self.items)\<close> stores.
\<close>

record api_exception =
  items :: "pyval list"
  args :: "pyval list"

text \<open>
  The methods of the class hierarchy that \<open>self.name(items)\<close> can call with the one
  argument \<open>items\<close>: the class method \<open>_form_exception_list\<close> and the static method
  \<open>_parse_exception_list\<close>, both bound in the body of \<open>APIException\<close>. The bodies of
  \<open>PRAWException\<close> and \<open>RedditAPIException\<close> bind no name, and \<open>Exception\<close> has no
  attribute of the name that \<open>__init__\<close> uses. Looking up a name that is bound
  nowhere raises AttributeError. The lookup is modelled for these three names: the two
  methods and the name \<open>parse_exception_list\<close> of line 222.
\<close>

definition APIException_methods :: "(string \<times> (pyval \<Rightarrow> pyval result)) list" where
  "APIException_methods =
     [(''_form_exception_list'', \<lambda>items. private_form_exception_list items []),
      (''_parse_exception_list'',
         \<lambda>exceptions. rbind (private_parse_exception_list exceptions)
                         (\<lambda>(baselist, _). Inr (PList baselist)))]"

definition APIException_getattr :: "string \<Rightarrow> (pyval \<Rightarrow> pyval result) result" where
  "APIException_getattr name =
     (case map_of APIException_methods name of
        None \<Rightarrow> Inl AttributeError
      | Some m \<Rightarrow> Inr m)"

text \<open>
  The body of \<open>__init__\<close> (lines 218--223), with the outcome of the lookup of the
  method it calls as a parameter. The arguments are prepared first, the method is
  looked up next, then called; \<open>*self.items\<close> iterates over the value stored.
  (\<open>items_arg\<close> is the parameter \<open>items\<close>, \<open>items\<close> the attribute.)
\<close>

definition APIException_init_body ::
  "(pyval \<Rightarrow> pyval result) result \<Rightarrow> pyval \<Rightarrow> pyval list \<Rightarrow> api_exception result"
where
  "APIException_init_body looked_up items_arg optional_args =
     rbind (init_items items_arg optional_args) (\<lambda>items'.
     rbind looked_up (\<lambda>method.
     rbind (method items') (\<lambda>stored.
     rbind (py_iter stored) (\<lambda>its.
       Inr \<lparr>items = its, args = its\<rparr>))))"

text \<open>\<open>__init__\<close> as written calls \<open>self.parse_exception_list\<close>.\<close>

definition APIException_init :: "pyval \<Rightarrow> pyval list \<Rightarrow> api_exception result" where
  "APIException_init items_arg optional_args =
     APIException_init_body (APIException_getattr ''parse_exception_list'')
       items_arg optional_args"

section \<open>The deprecated accessors of \<open>APIException\<close>\<close>

text \<open>
  \<open>warn(text, category=DeprecationWarning, stacklevel=3)\<close> hands a warning to the
  \<open>warnings\<close> module; the model records the warnings issued, in order. Whether a
  warning is shown, and whether a filter turns it into an exception, is the
  configuration of that module, which lies outside \<open>praw/exceptions.py\<close>.
\<close>

datatype warning_category = DeprecationWarning

record warning =
  text_of :: string
  category :: warning_category
  stacklevel :: nat

definition warn :: "string \<Rightarrow> warning_category \<Rightarrow> nat \<Rightarrow> warning list \<Rightarrow> warning list" where
  "warn txt cat lvl issued = issued @ [\<lparr>text_of = txt, category = cat, stacklevel = lvl\<rparr>]"

text \<open>
  \<open>getattr(obj, attrname)\<close> for the attribute names the module passes: the three
  attributes of a \<open>RedditErrorItem\<close>; strings, lists and \<open>None\<close> have none of them.
\<close>

definition py_getattr :: "pyval \<Rightarrow> string \<Rightarrow> pyval result" where
  "py_getattr obj attrname =
     (case obj of
        PItem et msg fld _ \<Rightarrow>
          if attrname = ''error_type'' then Inr et
          else if attrname = ''message'' then Inr msg
          else if attrname = ''field'' then Inr fld
          else Inl AttributeError
      | _ \<Rightarrow> Inl AttributeError)"

definition deprecation_text :: "string \<Rightarrow> string" where
  "deprecation_text attrname =
     ''Accessing attribute ``'' @ attrname @ ''`` through APIException is deprecated. ''
     @ ''This behavior will be removed in PRAW 8.0. Check out ''
     @ ''https://praw.readthedocs.io/en/latest/package_info/''
     @ ''praw7_migration.html to learn how to migrate your code.''"

text \<open>\<open>_get_old_attr(self, attrname)\<close>: the value or the error, and the warnings issued.\<close>

definition private_get_old_attr ::
  "api_exception \<Rightarrow> string \<Rightarrow> warning list \<Rightarrow> pyval result \<times> warning list"
where
  "private_get_old_attr self attrname issued =
     (let issued' = warn (deprecation_text attrname) DeprecationWarning 3 issued
      in (rbind (py_getitem (PList (items self)) 0) (\<lambda>first. py_getattr first attrname),
          issued'))"

definition APIException_error_type ::
  "api_exception \<Rightarrow> warning list \<Rightarrow> pyval result \<times> warning list" where
  "APIException_error_type self = private_get_old_attr self ''error_type''"

definition APIException_message ::
  "api_exception \<Rightarrow> warning list \<Rightarrow> pyval result \<times> warning list" where
  "APIException_message self = private_get_old_attr self ''message''"

definition APIException_field ::
  "api_exception \<Rightarrow> warning list \<Rightarrow> pyval result \<times> warning list" where
  "APIException_field self = private_get_old_attr self ''field''"

section \<open>\<open>TooLargeMediaException\<close>\<close>

text \<open>\<open>str\<close> of an integer: its decimal digits, with a minus sign when negative.\<close>

fun nat_str :: "nat \<Rightarrow> string" where
  "nat_str n =
     (if n < 10 then [''0123456789'' ! n]
      else nat_str (n div 10) @ [''0123456789'' ! (n mod 10)])"

declare nat_str.simps [simp del]

definition int_str :: "int \<Rightarrow> string" where
  "int_str i = (if i < 0 then CHR ''-'' # nat_str (nat (- i)) else nat_str (nat i))"

record too_large_media_exception =
  maximum_size :: int
  actual :: int
  exc_message :: string

definition TooLargeMediaException :: "int \<Rightarrow> int \<Rightarrow> too_large_media_exception" where
  "TooLargeMediaException max_size act =
     \<lparr>maximum_size = max_size, actual = act,
      exc_message =
        ''The media that you uploaded was too large (maximum size is ''
        @ int_str max_size @ '' bytes, uploaded '' @ int_str act @ '' bytes)''\<rparr>"

text \<open>The number that a string of decimal digits denotes, to check \<open>nat_str\<close> against.\<close>

definition dec_value :: "string \<Rightarrow> nat" where
  "dec_value cs = foldl (\<lambda>acc c. 10 * acc + (of_char c - 48)) 0 cs"

text \<open>
  What the loop of \<open>_form_exception_list\<close> makes of one element, and what the
  comprehension of \<open>_parse_exception_list\<close> makes of an element that is an item or a
  raw error of length three; both are used to state what the loops compute.
\<close>

definition padded :: "pyval \<Rightarrow> pyval" where
  "padded v =
     (case v of PList ys \<Rightarrow> if length ys = 2 then PList (ys @ [PNone]) else v | _ \<Rightarrow> v)"

definition parsed :: "pyval \<Rightarrow> pyval" where
  "parsed e =
     (case e of
        PList [t, m, f] \<Rightarrow> PItem t m (if py_bool f then f else PStr []) False
      | _ \<Rightarrow> e)"

text \<open>
  The comprehension and the loop read by value, to state what
  \<open>_parse_exception_list\<close> computes: the value each element yields, the reference that
  stands for it in \<open>baselist\<close>, and an element of the caller's list after the loop.
\<close>

definition element_value :: "pyval \<Rightarrow> pyval result" where
  "element_value exception =
     (if isinstance_RedditErrorItem exception then Inr exception
      else construct_item exception)"

fun element_values :: "pyval list \<Rightarrow> pyval list result" where
  "element_values [] = Inr []"
| "element_values (exception # rest) =
     rbind (element_value exception) (\<lambda>it.
     rbind (element_values rest) (\<lambda>its. Inr (it # its)))"

definition ref_of :: "nat \<Rightarrow> pyval \<Rightarrow> pyval \<Rightarrow> obj_ref" where
  "ref_of i x v = (if isinstance_RedditErrorItem x then Caller i else New v)"

fun refs_of :: "nat \<Rightarrow> pyval list \<Rightarrow> pyval list \<Rightarrow> obj_ref list" where
  "refs_of i (x # xs) (v # vs) = ref_of i x v # refs_of (Suc i) xs vs"
| "refs_of i _ _ = []"

definition flag_item :: "pyval \<Rightarrow> pyval" where
  "flag_item x = (if isinstance_RedditErrorItem x then set_called x else x)"

definition exceptions_after :: "pyval \<Rightarrow> pyval" where
  "exceptions_after exceptions =
     (case exceptions of PList xs \<Rightarrow> PList (map flag_item xs) | _ \<Rightarrow> exceptions)"

text \<open>Values built from strings, \<open>None\<close> and lists only, with no item inside.\<close>

fun plain :: "pyval \<Rightarrow> bool" where
  "plain PNone = True"
| "plain (PStr s) = True"
| "plain (PList xs) = list_all plain xs"
| "plain (PItem et msg fld fl) = False"

section \<open>Properties of \<open>RedditErrorItem.error_message\<close>\<close>

text \<open>
  C7. For every error item, \<open>error_message\<close> is \<open>"{}: {!r}"\<close> of the error type and
  the message, followed by \<open>" on field {!r}"\<close> of the field exactly when the field is
  true (present and non-empty). With field \<open>None\<close> or the empty string the clause is
  left out, and the item \<open>("RATE_LIMIT", "too many requests", "body")\<close> renders as
  \<open>RATE_LIMIT: 'too many requests' on field 'body'\<close>.
\<close>

theorem error_message_renders:
  "error_message (PItem et msg fld fl) =
     py_str et @ '': '' @ py_repr msg
       @ (if py_bool fld then '' on field '' @ py_repr fld else [])
   \<and> error_message (PItem (PStr k) (PStr m) PNone fl) = k @ '': '' @ str_repr m
   \<and> error_message (PItem (PStr k) (PStr m) (PStr []) fl) = k @ '': '' @ str_repr m
   \<and> error_message (RedditErrorItem (PStr ''RATE_LIMIT'') (PStr ''too many requests'')
         (PStr ''body''))
       = ''RATE_LIMIT: '' @ [CHR 0x27] @ ''too many requests'' @ [CHR 0x27]
           @ '' on field '' @ [CHR 0x27] @ ''body'' @ [CHR 0x27]"
  by (simp add: Let_def RedditErrorItem_def str_repr_def repr_char_def)

theorem error_message_renders_witness:
  "error_message (PItem (PStr ''A'') (PStr ''b'') PNone True)
     = ''A: '' @ [CHR 0x27] @ ''b'' @ [CHR 0x27]"
  using error_message_renders [of "PStr ''A''" "PStr ''b''" PNone True "''A''" "''b''"]
  by (simp add: Let_def str_repr_def repr_char_def)

section \<open>Properties of \<open>TooLargeMediaException\<close>\<close>

lemma digit_char:
  assumes "d < 10"
  shows "of_char (''0123456789'' ! d) = 48 + d"
proof -
  from assms have "d = 0 \<or> d = 1 \<or> d = 2 \<or> d = 3 \<or> d = 4 \<or> d = 5
      \<or> d = 6 \<or> d = 7 \<or> d = 8 \<or> d = 9"
    by arith
  then show ?thesis by (elim disjE) simp_all
qed

lemma dec_value_snoc: "dec_value (cs @ [c]) = 10 * dec_value cs + (of_char c - 48)"
  by (simp add: dec_value_def)

text \<open>\<open>nat_str\<close> writes a number in base ten: reading the digits back gives the number.\<close>

lemma dec_value_nat_str: "dec_value (nat_str n) = n"
proof (induction n rule: nat_str.induct)
  case (1 n)
  show ?case
  proof (cases "n < 10")
    case True
    then show ?thesis by (subst nat_str.simps) (simp add: digit_char dec_value_def)
  next
    case False
    with 1 have "dec_value (nat_str (n div 10)) = n div 10" by simp
    with False show ?thesis
      by (subst nat_str.simps) (simp add: dec_value_snoc digit_char)
  qed
qed

lemma exc_message_around_maximum_size:
  "exc_message (TooLargeMediaException m a) =
     ''The media that you uploaded was too large (maximum size is '' @ int_str m
       @ ('' bytes, uploaded '' @ int_str a @ '' bytes)'')"
  by (simp only: TooLargeMediaException_def too_large_media_exception.simps)

lemma exc_message_around_actual:
  "exc_message (TooLargeMediaException m a) =
     (''The media that you uploaded was too large (maximum size is '' @ int_str m
       @ '' bytes, uploaded '') @ int_str a @ '' bytes)''"
  by (simp only: TooLargeMediaException_def too_large_media_exception.simps append_assoc)

lemma message_has_maximum_size:
  "sublist (int_str m) (exc_message (TooLargeMediaException m a))"
  unfolding exc_message_around_maximum_size by (rule sublist_appendI)

lemma message_has_actual:
  "sublist (int_str a) (exc_message (TooLargeMediaException m a))"
  unfolding exc_message_around_actual by (rule sublist_appendI)

lemma int_str_1000: "int_str 1000 = ''1000''"
  by code_simp

lemma int_str_2000: "int_str 2000 = ''2000''"
  by code_simp

text \<open>
  C9. For all integers \<open>maximum_size\<close> and \<open>actual\<close>, the message of
  \<open>TooLargeMediaException(maximum_size, actual)\<close> contains the decimal rendering of
  both, the instance keeps both as attributes, and for 1000 and 2000 the message
  contains \<open>1000\<close> and \<open>2000\<close>.
\<close>

theorem TooLargeMediaException_reports_both_sizes:
  "sublist (int_str m) (exc_message (TooLargeMediaException m a))
   \<and> sublist (int_str a) (exc_message (TooLargeMediaException m a))
   \<and> maximum_size (TooLargeMediaException m a) = m
   \<and> actual (TooLargeMediaException m a) = a
   \<and> sublist ''1000'' (exc_message (TooLargeMediaException 1000 2000))
   \<and> sublist ''2000'' (exc_message (TooLargeMediaException 1000 2000))"
proof -
  have "sublist ''1000'' (exc_message (TooLargeMediaException 1000 2000))"
    using message_has_maximum_size [of 1000 2000] by (simp only: int_str_1000)
  moreover have "sublist ''2000'' (exc_message (TooLargeMediaException 1000 2000))"
    using message_has_actual [of 2000 1000] by (simp only: int_str_2000)
  moreover have "maximum_size (TooLargeMediaException m a) = m"
    and "actual (TooLargeMediaException m a) = a"
    by (simp_all add: TooLargeMediaException_def)
  ultimately show ?thesis
    using message_has_maximum_size message_has_actual by blast
qed

theorem TooLargeMediaException_reports_both_sizes_witness:
  "sublist ''-5'' (exc_message (TooLargeMediaException (- 5) 7))
   \<and> sublist ''7'' (exc_message (TooLargeMediaException (- 5) 7))
   \<and> maximum_size (TooLargeMediaException (- 5) 7) = - 5"
proof -
  have "int_str (- 5) = ''-5''" and "int_str 7 = ''7''"
    by code_simp+
  then show ?thesis
    using TooLargeMediaException_reports_both_sizes [of "- 5" 7] by simp
qed

section \<open>Properties of \<open>RedditErrorItem.__eq__\<close>\<close>

lemma py_eq_plain:
  "plain a \<Longrightarrow> py_eq a b = (a = b)"
  "list_all plain as \<Longrightarrow> py_eq_list as bs = (as = bs)"
  by (induction a b and as bs rule: py_eq_py_eq_list.induct) auto

lemma py_eq_list_refl: "(\<And>x. x \<in> set vs \<Longrightarrow> py_eq x x) \<Longrightarrow> py_eq_list vs vs"
  by (induction vs) auto

lemma py_eq_refl: "py_eq v v"
  by (induction v) (auto intro: py_eq_list_refl)

lemma eq_items:
  "RedditErrorItem_eq (PItem k m f fl) (PItem k' m' f' fl')
     = EqBool (py_eq k k' \<and> py_eq m m' \<and> py_eq f f')"
  by (simp add: RedditErrorItem_eq_def isinstance_RedditErrorItem_def)

lemma eq_other:
  "\<not> isinstance_RedditErrorItem other \<Longrightarrow> RedditErrorItem_eq self other = NotImplemented"
  by (simp add: RedditErrorItem_eq_def)

lemma py_eq_item_other:
  "\<not> isinstance_RedditErrorItem other \<Longrightarrow> \<not> py_eq (PItem k m f fl) other"
  by (cases other) (simp_all add: isinstance_RedditErrorItem_def)

text \<open>The operator \<open>==\<close> on an item is true exactly when its \<open>__eq__\<close> returns True.\<close>

lemma py_eq_dispatch:
  "py_eq (PItem k m f fl) other = (RedditErrorItem_eq (PItem k m f fl) other = EqBool True)"
  by (cases other) (simp_all add: RedditErrorItem_eq_def isinstance_RedditErrorItem_def)

text \<open>
  C8. \<open>__eq__\<close> on two error items returns the truth value of the pairwise equality of
  error type, message and field, whatever the flags; for attributes that are strings,
  \<open>None\<close> or lists of these, that is their equality as values, so one differing
  attribute makes the items unequal. Against a value that is not an error item,
  \<open>__eq__\<close> returns \<open>NotImplemented\<close> (it does not raise) and \<open>==\<close> is false.
\<close>

theorem RedditErrorItem_eq_structural:
  "RedditErrorItem_eq (PItem k m f fl) (PItem k' m' f' fl')
     = EqBool (py_eq k k' \<and> py_eq m m' \<and> py_eq f f')
   \<and> (plain k \<and> plain m \<and> plain f \<longrightarrow>
        RedditErrorItem_eq (PItem k m f fl) (PItem k' m' f' fl')
          = EqBool (k = k' \<and> m = m' \<and> f = f'))
   \<and> RedditErrorItem_eq (PItem k m f fl) (PItem k m f fl') = EqBool True
   \<and> (\<not> isinstance_RedditErrorItem other \<longrightarrow>
        RedditErrorItem_eq (PItem k m f fl) other = NotImplemented
        \<and> \<not> py_eq (PItem k m f fl) other)"
  by (simp add: eq_items eq_other py_eq_item_other py_eq_plain py_eq_refl)

theorem RedditErrorItem_eq_structural_witness:
  "RedditErrorItem_eq (RedditErrorItem (PStr ''A'') (PStr ''B'') (PStr ''C''))
                      (RedditErrorItem (PStr ''A'') (PStr ''B'') (PStr ''C'')) = EqBool True
   \<and> RedditErrorItem_eq (RedditErrorItem (PStr ''A'') (PStr ''B'') (PStr ''C''))
                      (RedditErrorItem (PStr ''A'') (PStr ''B'') PNone) = EqBool False
   \<and> RedditErrorItem_eq (RedditErrorItem (PStr ''A'') (PStr ''B'') (PStr ''C''))
                      (PList [PStr ''A'', PStr ''B'', PStr ''C'']) = NotImplemented"
  using RedditErrorItem_eq_structural
          [of "PStr ''A''" "PStr ''B''" "PStr ''C''" False
              "PStr ''A''" "PStr ''B''" "PStr ''C''" False
              "PList [PStr ''A'', PStr ''B'', PStr ''C'']"]
        RedditErrorItem_eq_structural
          [of "PStr ''A''" "PStr ''B''" "PStr ''C''" False
              "PStr ''A''" "PStr ''B''" "PNone" False
              "PList [PStr ''A'', PStr ''B'', PStr ''C'']"]
  by (simp add: RedditErrorItem_def isinstance_RedditErrorItem_def)

section \<open>Properties of \<open>_form_exception_list\<close>\<close>

lemma form_loop_step:
  "form_loop i (x # rest) its =
     form_loop (Suc i) rest (if padded x = x then its else its[i := padded x])"
  by (cases x) (auto simp: padded_def)

text \<open>
  The loop invariant: when the loop reaches index \<open>i\<close>, the elements before \<open>i\<close> are
  final and the elements from \<open>i\<close> on are still those of the copy.
\<close>

lemma form_loop_take_drop:
  "drop i its = rest \<Longrightarrow> form_loop i rest its = take i its @ map padded rest"
proof (induction rest arbitrary: i its)
  case Nil
  then show ?case by simp
next
  case (Cons x rest)
  from Cons.prems have i: "i < length its"
    by (cases "i < length its") auto
  from Cons.prems Cons_nth_drop_Suc [OF i] have x: "its ! i = x"
    and d: "drop (Suc i) its = rest"
    by simp_all
  let ?its' = "its[i := padded x]"
  have same: "(if padded x = x then its else ?its') = ?its'"
    using x i by (auto simp: list_update_id)
  have "drop (Suc i) ?its' = rest" using d by simp
  from Cons.IH [OF this]
  have "form_loop (Suc i) rest ?its' = take (Suc i) ?its' @ map padded rest" .
  moreover have "take (Suc i) ?its' = take i its @ [padded x]"
    using i by (simp add: take_Suc_conv_app_nth)
  ultimately show ?case
    by (simp only: form_loop_step same) simp
qed

lemma form_loop_map: "form_loop 0 xs xs = map padded xs"
  using form_loop_take_drop [of 0 xs xs] by simp

text \<open>The shapes that the function canonicalizes as the specification says.\<close>

lemma form_flat_three:
  "private_form_exception_list (PList [PStr a, b, c]) optional_args
     = Inr (PList [PList [PStr a, b, c]])"
  by (simp add: private_form_exception_list_def isinstance_str_def
      isinstance_RedditErrorItem_def rbind_def)

lemma form_flat_two:
  "private_form_exception_list (PList [PStr a, b]) optional_args
     = Inr (PList [PList [PStr a, b, PNone]])"
  by (simp add: private_form_exception_list_def isinstance_str_def
      isinstance_RedditErrorItem_def rbind_def)

lemma form_list_first:
  "private_form_exception_list (PList (PList ys # rest)) optional_args
     = Inr (PList (map padded (PList ys # rest)))"
  by (simp add: private_form_exception_list_def isinstance_str_def isinstance_list_def
      isinstance_RedditErrorItem_def rbind_def form_loop_map Let_def del: form_loop.simps)

lemma form_item_first:
  "private_form_exception_list (PList (PItem k m f fl # rest)) optional_args
     = Inr (PList (PItem k m f fl # rest))"
  by (simp add: private_form_exception_list_def isinstance_str_def isinstance_list_def
      isinstance_RedditErrorItem_def rbind_def)

text \<open>
  C6. The padding loop runs only when the first element of the list is a list
  (line 115). A list that starts with an error item is returned as it is, so a sub-list
  of length 2 after the item gets no \<open>None\<close> appended; the same two elements with the
  sub-list first are padded.
\<close>

theorem form_exception_list_item_first_not_padded:
  "private_form_exception_list
     (PList [RedditErrorItem (PStr ''X'') (PStr ''Y'') (PStr ''Z''),
             PList [PStr ''A'', PStr ''B'']]) []
   = Inr (PList [RedditErrorItem (PStr ''X'') (PStr ''Y'') (PStr ''Z''),
                 PList [PStr ''A'', PStr ''B'']])
   \<and> private_form_exception_list
     (PList [PList [PStr ''A'', PStr ''B''],
             RedditErrorItem (PStr ''X'') (PStr ''Y'') (PStr ''Z'')]) []
   = Inr (PList [PList [PStr ''A'', PStr ''B'', PNone],
                 RedditErrorItem (PStr ''X'') (PStr ''Y'') (PStr ''Z'')])"
  by (simp add: RedditErrorItem_def form_item_first form_list_first padded_def)

section \<open>Properties of \<open>_parse_exception_list\<close>\<close>

lemma rbind_Inr_iff: "rbind r f = Inr y \<longleftrightarrow> (\<exists>v. r = Inr v \<and> f v = Inr y)"
  by (cases r) (simp_all add: rbind_def)

lemma element_values_length: "element_values xs = Inr vs \<Longrightarrow> length vs = length xs"
  by (induction xs arbitrary: vs) (auto simp: rbind_Inr_iff)

text \<open>
  The comprehension raises exactly when an element fails to yield a value, and
  otherwise holds the reference of each value.
\<close>

lemma comprehension_refs:
  "comprehension i xs = rbind (element_values xs) (\<lambda>vs. Inr (refs_of i xs vs))"
proof (induction xs arbitrary: i)
  case Nil
  then show ?case by (simp add: rbind_def)
next
  case (Cons x xs)
  show ?case
    by (cases "construct_item x"; cases "element_values xs")
       (simp_all add: Cons parse_element_def element_value_def ref_of_def rbind_def)
qed

lemma element_values_items:
  "element_values xs = Inr vs \<Longrightarrow> j < length xs \<Longrightarrow> isinstance_RedditErrorItem (xs ! j)
     \<Longrightarrow> vs ! j = xs ! j"
proof (induction xs arbitrary: vs j)
  case Nil then show ?case by simp
next
  case (Cons x xs)
  then show ?case by (cases j) (auto simp: rbind_Inr_iff element_value_def)
qed

text \<open>
  The invariant of the flagging loop: at index \<open>i\<close> the caller's list is final before
  \<open>i\<close> and untouched from \<open>i\<close> on.
\<close>

lemma flag_loop_refs:
  assumes "length vs = length xs" and "drop i caller = xs"
  shows "flag_loop (refs_of i xs vs) caller
           = (refs_of i xs (map set_called vs), take i caller @ map flag_item xs)"
  using assms
proof (induction xs arbitrary: i vs caller)
  case Nil
  then show ?case by simp
next
  case (Cons x xs)
  from Cons.prems obtain v vs' where vs: "vs = v # vs'" and len: "length vs' = length xs"
    by (cases vs) auto
  from Cons.prems have i: "i < length caller"
    by (cases "i < length caller") auto
  from Cons.prems Cons_nth_drop_Suc [OF i] have x: "caller ! i = x"
    and d: "drop (Suc i) caller = xs"
    by simp_all
  show ?case
  proof (cases "isinstance_RedditErrorItem x")
    case True
    let ?c = "caller[i := set_called (caller ! i)]"
    have "drop (Suc i) ?c = xs" using d by simp
    from Cons.IH [OF len this]
    have "flag_loop (refs_of (Suc i) xs vs') ?c
            = (refs_of (Suc i) xs (map set_called vs'), take (Suc i) ?c @ map flag_item xs)" .
    moreover have "take (Suc i) ?c = take i caller @ [flag_item x]"
      using i x True by (simp add: take_Suc_conv_app_nth flag_item_def)
    ultimately show ?thesis
      using True by (simp add: vs ref_of_def)
  next
    case False
    from Cons.IH [OF len d]
    have "flag_loop (refs_of (Suc i) xs vs') caller
            = (refs_of (Suc i) xs (map set_called vs'), take (Suc i) caller @ map flag_item xs)" .
    moreover have "take (Suc i) caller = take i caller @ [flag_item x]"
      using i x False by (simp add: take_Suc_conv_app_nth flag_item_def)
    ultimately show ?thesis
      using False by (simp add: vs ref_of_def)
  qed
qed

lemma deref_refs:
  assumes "length ws = length xs" and "length pre = i"
    and "\<forall>j<length xs. isinstance_RedditErrorItem (xs ! j) \<longrightarrow> ws ! j = flag_item (xs ! j)"
  shows "map (deref (pre @ map flag_item xs)) (refs_of i xs ws) = ws"
  using assms
proof (induction xs arbitrary: i pre ws)
  case Nil
  then show ?case by simp
next
  case (Cons x xs)
  from Cons.prems obtain w ws' where ws: "ws = w # ws'" and len: "length ws' = length xs"
    by (cases ws) auto
  from Cons.prems(3) ws have w: "isinstance_RedditErrorItem x \<longrightarrow> w = flag_item x"
    and rest: "\<forall>j<length xs. isinstance_RedditErrorItem (xs ! j) \<longrightarrow> ws' ! j = flag_item (xs ! j)"
    by fastforce+
  have "length (pre @ [flag_item x]) = Suc i" using Cons.prems(2) by simp
  from Cons.IH [OF len this rest]
  have "map (deref (pre @ map flag_item (x # xs))) (refs_of (Suc i) xs ws') = ws'" by simp
  moreover have "deref (pre @ map flag_item (x # xs)) (ref_of i x w) = w"
    using w Cons.prems(2) by (auto simp: deref_def ref_of_def nth_append)
  ultimately show ?case by (simp add: ws)
qed

text \<open>
  What the function computes, by value: the values of the elements with the flag set,
  and the caller's list with the flag set on the items it held.
\<close>

lemma parse_exception_list_values:
  "private_parse_exception_list exceptions =
     rbind (py_iter exceptions) (\<lambda>xs.
     rbind (element_values xs) (\<lambda>vs.
       Inr (map set_called vs, exceptions_after exceptions)))"
proof (cases "py_iter exceptions")
  case (Inl e)
  then show ?thesis by (simp add: private_parse_exception_list_def rbind_def)
next
  case (Inr xs)
  show ?thesis
  proof (cases "element_values xs")
    case (Inl e)
    with Inr show ?thesis
      by (simp add: private_parse_exception_list_def comprehension_refs rbind_def)
  next
    case vs: (Inr vs)
    from element_values_length [OF vs] have len: "length vs = length xs" .
    have loop: "flag_loop (refs_of 0 xs vs) xs = (refs_of 0 xs (map set_called vs), map flag_item xs)"
      using flag_loop_refs [OF len, of 0 xs] by simp
    have "\<forall>j<length xs. isinstance_RedditErrorItem (xs ! j) \<longrightarrow>
            map set_called vs ! j = flag_item (xs ! j)"
      using element_values_items [OF vs] len by (simp add: flag_item_def)
    with deref_refs [of "map set_called vs" xs "[]" 0] len
    have read: "map (deref (map flag_item xs)) (refs_of 0 xs (map set_called vs)) = map set_called vs"
      by simp
    have after: "(case exceptions of PList _ \<Rightarrow> PList (map flag_item xs) | _ \<Rightarrow> exceptions)
        = exceptions_after exceptions"
      using Inr by (cases exceptions) (simp_all add: exceptions_after_def)
    from Inr vs show ?thesis
      by (simp add: private_parse_exception_list_def comprehension_refs rbind_def loop read after)
  qed
qed

lemma element_value_item: "element_value (PItem k m f fl) = Inr (PItem k m f fl)"
  by (simp add: element_value_def isinstance_RedditErrorItem_def)

lemma element_value_triple:
  "element_value (PList [t, m, f]) = Inr (PItem t m (if py_bool f then f else PStr []) False)"
  by (simp add: element_value_def construct_item_def isinstance_RedditErrorItem_def rbind_def
      RedditErrorItem_def)

lemma element_values_map:
  "\<forall>e\<in>set xs. element_value e = Inr (g e) \<Longrightarrow> element_values xs = Inr (map g xs)"
  by (induction xs) (simp_all add: rbind_def)

lemma parse_items_and_triples:
  assumes "\<forall>e \<in> set xs. isinstance_RedditErrorItem e \<or> (\<exists>t m f. e = PList [t, m, f])"
  shows "private_parse_exception_list (PList xs)
           = Inr (map (set_called \<circ> parsed) xs, exceptions_after (PList xs))"
proof -
  have "\<forall>e\<in>set xs. element_value e = Inr (parsed e)"
  proof
    fix e assume "e \<in> set xs"
    with assms consider "isinstance_RedditErrorItem e" | t m f where "e = PList [t, m, f]"
      by blast
    then show "element_value e = Inr (parsed e)"
    proof cases
      case 1
      then show ?thesis
        by (cases e) (simp_all add: isinstance_RedditErrorItem_def element_value_item parsed_def)
    next
      case 2
      then show ?thesis by (simp add: element_value_triple parsed_def)
    qed
  qed
  then have "element_values xs = Inr (map parsed xs)" by (rule element_values_map)
  then show ?thesis by (simp add: parse_exception_list_values rbind_def)
qed

text \<open>
  C5. For every list whose elements are error items and raw triples \<open>[t, m, f]\<close>,
  \<open>_parse_exception_list\<close> returns a list of the same length and order: an item comes
  back with its own error type, message and field; a triple becomes the item with error
  type \<open>t\<close>, message \<open>m\<close> and field \<open>f\<close> when \<open>f\<close> is true, \<open>""\<close> when it is false
  (\<open>None\<close> or empty), so the field of an item built from a triple is never \<open>None\<close>.
\<close>

theorem parse_exception_list_elements:
  assumes "\<forall>e \<in> set xs. isinstance_RedditErrorItem e \<or> (\<exists>t m f. e = PList [t, m, f])"
  shows "\<exists>baselist after.
     private_parse_exception_list (PList xs) = Inr (baselist, after)
     \<and> length baselist = length xs
     \<and> (\<forall>i < length xs.
          (\<forall>k m f fl. xs ! i = PItem k m f fl \<longrightarrow> baselist ! i = PItem k m f True)
        \<and> (\<forall>t m f. xs ! i = PList [t, m, f] \<longrightarrow>
              baselist ! i = PItem t m (if py_bool f then f else PStr []) True
              \<and> field (baselist ! i) \<noteq> PNone))"
proof -
  let ?b = "map (set_called \<circ> parsed) xs"
  have "\<forall>i < length xs.
          (\<forall>k m f fl. xs ! i = PItem k m f fl \<longrightarrow> ?b ! i = PItem k m f True)
        \<and> (\<forall>t m f. xs ! i = PList [t, m, f] \<longrightarrow>
              ?b ! i = PItem t m (if py_bool f then f else PStr []) True
              \<and> field (?b ! i) \<noteq> PNone)"
    by (auto simp: set_called_def parsed_def)
  with parse_items_and_triples [OF assms] show ?thesis by auto
qed

theorem parse_exception_list_elements_witness:
  "\<exists>baselist after.
     private_parse_exception_list
       (PList [PList [PStr ''A'', PStr ''B'', PNone],
               PItem (PStr ''X'') (PStr ''Y'') (PStr ''Z'') False,
               PList [PStr ''C'', PStr ''D'', PStr ''e'']])
       = Inr (baselist, after)
     \<and> length baselist = 3
     \<and> baselist ! 0 = PItem (PStr ''A'') (PStr ''B'') (PStr []) True
     \<and> baselist ! 1 = PItem (PStr ''X'') (PStr ''Y'') (PStr ''Z'') True
     \<and> baselist ! 2 = PItem (PStr ''C'') (PStr ''D'') (PStr ''e'') True"
proof -
  let ?xs = "[PList [PStr ''A'', PStr ''B'', PNone],
              PItem (PStr ''X'') (PStr ''Y'') (PStr ''Z'') False,
              PList [PStr ''C'', PStr ''D'', PStr ''e'']]"
  have h: "\<forall>e \<in> set ?xs. isinstance_RedditErrorItem e \<or> (\<exists>t m f. e = PList [t, m, f])"
    by (simp add: isinstance_RedditErrorItem_def)
  from parse_exception_list_elements [OF h] obtain baselist after where
    r: "private_parse_exception_list (PList ?xs) = Inr (baselist, after)" and
    l: "length baselist = length ?xs" and
    e: "\<forall>i < length ?xs.
          (\<forall>k m f fl. ?xs ! i = PItem k m f fl \<longrightarrow> baselist ! i = PItem k m f True)
        \<and> (\<forall>t m f. ?xs ! i = PList [t, m, f] \<longrightarrow>
              baselist ! i = PItem t m (if py_bool f then f else PStr []) True
              \<and> field (baselist ! i) \<noteq> PNone)"
    by blast
  have n: "0 < length ?xs" "1 < length ?xs" "2 < length ?xs" by simp_all
  from e n(1) have "?xs ! 0 = PList [PStr ''A'', PStr ''B'', PNone] \<longrightarrow>
      baselist ! 0 = PItem (PStr ''A'') (PStr ''B'') (if py_bool PNone then PNone else PStr []) True
      \<and> field (baselist ! 0) \<noteq> PNone"
    by blast
  then have "baselist ! 0 = PItem (PStr ''A'') (PStr ''B'') (PStr []) True"
    by simp
  moreover from e n(2) have "?xs ! 1 = PItem (PStr ''X'') (PStr ''Y'') (PStr ''Z'') False \<longrightarrow>
      baselist ! 1 = PItem (PStr ''X'') (PStr ''Y'') (PStr ''Z'') True"
    by blast
  then have "baselist ! 1 = PItem (PStr ''X'') (PStr ''Y'') (PStr ''Z'') True"
    by simp
  moreover from e n(3) have "?xs ! 2 = PList [PStr ''C'', PStr ''D'', PStr ''e''] \<longrightarrow>
      baselist ! 2 = PItem (PStr ''C'') (PStr ''D'')
         (if py_bool (PStr ''e'') then PStr ''e'' else PStr []) True
      \<and> field (baselist ! 2) \<noteq> PNone"
    by blast
  then have "baselist ! 2 = PItem (PStr ''C'') (PStr ''D'') (PStr ''e'') True"
    by simp
  ultimately show ?thesis using r l by simp
qed

section \<open>Properties of the flag \<open>_called_from_reddit_api_exception\<close>\<close>

lemma element_values_are_items:
  "element_values xs = Inr ys \<Longrightarrow> \<forall>it \<in> set ys. isinstance_RedditErrorItem it"
proof (induction xs arbitrary: ys)
  case Nil
  then show ?case by simp
next
  case (Cons x xs)
  then show ?case
    by (auto simp: rbind_Inr_iff element_value_def construct_item_def RedditErrorItem_def
          isinstance_RedditErrorItem_def split: if_splits)
qed

lemma set_called_item:
  "isinstance_RedditErrorItem it \<Longrightarrow>
     set_called it = PItem (error_type it) (message it) (field it) True"
  by (cases it) (simp_all add: set_called_def isinstance_RedditErrorItem_def)

lemma parse_flags_all:
  assumes "private_parse_exception_list exceptions = Inr (baselist, after)"
  shows "\<forall>it \<in> set baselist. isinstance_RedditErrorItem it \<and> called_from_reddit_api_exception it"
proof -
  from assms obtain xs b where b: "element_values xs = Inr b" and bl: "baselist = map set_called b"
    by (auto simp: parse_exception_list_values rbind_Inr_iff)
  from element_values_are_items [OF b] show ?thesis
    unfolding bl by (auto simp: set_called_item isinstance_RedditErrorItem_def)
qed

lemma parse_marks_prebuilt:
  assumes "private_parse_exception_list (PList xs) = Inr (baselist, after)"
    and "i < length xs" and "isinstance_RedditErrorItem (xs ! i)"
  shows "\<exists>ys. after = PList ys
           \<and> ys ! i = PItem (error_type (xs ! i)) (message (xs ! i)) (field (xs ! i)) True
           \<and> baselist ! i = ys ! i"
proof -
  from assms(1) obtain b where b: "element_values xs = Inr b" and bl: "baselist = map set_called b"
    and af: "after = exceptions_after (PList xs)"
    by (auto simp: parse_exception_list_values rbind_Inr_iff)
  from element_values_length [OF b] assms(2) have "i < length b" by simp
  with element_values_items [OF b assms(2,3)] bl
  have "baselist ! i = set_called (xs ! i)" by simp
  with af assms(2,3) show ?thesis
    by (simp add: exceptions_after_def flag_item_def set_called_item)
qed

lemma get_old_attr_flag:
  "private_get_old_attr (self\<lparr>items := PItem et msg fld fl # rest\<rparr>) attrname issued
   = private_get_old_attr (self\<lparr>items := PItem et msg fld fl' # rest\<rparr>) attrname issued"
  by (simp add: private_get_old_attr_def py_getattr_def rbind_def)

lemma eq_flag:
  "RedditErrorItem_eq (PItem et msg fld fl) other = RedditErrorItem_eq (PItem et msg fld fl') other"
  "RedditErrorItem_eq other (PItem et msg fld fl) = RedditErrorItem_eq other (PItem et msg fld fl')"
  by (simp_all add: RedditErrorItem_eq_def isinstance_RedditErrorItem_def)

text \<open>
  C10. Every element of the list that \<open>_parse_exception_list\<close> returns is an error
  item with the flag True; an item that was passed in is flagged in the caller's list
  too, being the same object. The flag decides \<open>repr\<close>: the constructor-style string
  while it is False, \<open>str\<close> of the item, that is \<open>error_message\<close>, once it is True.
  Nothing else reads it: \<open>error_message\<close>, \<open>str\<close>, \<open>__eq__\<close> on either side and the
  deprecated accessors give the same result whatever the flag.
\<close>

theorem flag_is_set_by_parse_and_read_by_repr_only:
  "(private_parse_exception_list exceptions = Inr (baselist, after) \<longrightarrow>
      (\<forall>it \<in> set baselist.
          isinstance_RedditErrorItem it \<and> called_from_reddit_api_exception it)
      \<and> (\<forall>xs i. exceptions = PList xs \<and> i < length xs
              \<and> isinstance_RedditErrorItem (xs ! i) \<longrightarrow>
            (\<exists>ys. after = PList ys
               \<and> ys ! i = PItem (error_type (xs ! i)) (message (xs ! i)) (field (xs ! i)) True
               \<and> baselist ! i = ys ! i)))
   \<and> py_repr (PItem et msg fld False)
       = ''RedditErrorItem(error_type='' @ py_repr et @ '', message='' @ py_repr msg
           @ '', field='' @ py_repr fld @ '')''
   \<and> py_repr (PItem et msg fld True) = py_str (PItem et msg fld True)
   \<and> py_str (PItem et msg fld True) = error_message (PItem et msg fld True)
   \<and> error_message (PItem et msg fld fl) = error_message (PItem et msg fld fl')
   \<and> py_str (PItem et msg fld fl) = py_str (PItem et msg fld fl')
   \<and> RedditErrorItem_eq (PItem et msg fld fl) other
       = RedditErrorItem_eq (PItem et msg fld fl') other
   \<and> RedditErrorItem_eq other (PItem et msg fld fl)
       = RedditErrorItem_eq other (PItem et msg fld fl')
   \<and> private_get_old_attr (self\<lparr>items := PItem et msg fld fl # rest\<rparr>) attrname issued
       = private_get_old_attr (self\<lparr>items := PItem et msg fld fl' # rest\<rparr>) attrname issued"
proof -
  have "private_parse_exception_list exceptions = Inr (baselist, after) \<longrightarrow>
      (\<forall>it \<in> set baselist.
          isinstance_RedditErrorItem it \<and> called_from_reddit_api_exception it)
      \<and> (\<forall>xs i. exceptions = PList xs \<and> i < length xs
              \<and> isinstance_RedditErrorItem (xs ! i) \<longrightarrow>
            (\<exists>ys. after = PList ys
               \<and> ys ! i = PItem (error_type (xs ! i)) (message (xs ! i)) (field (xs ! i)) True
               \<and> baselist ! i = ys ! i))"
    using parse_flags_all parse_marks_prebuilt by blast
  moreover have "py_repr (PItem et msg fld False)
       = ''RedditErrorItem(error_type='' @ py_repr et @ '', message='' @ py_repr msg
           @ '', field='' @ py_repr fld @ '')''"
    by simp
  moreover have "py_repr (PItem et msg fld True) = py_str (PItem et msg fld True)"
    by simp
  moreover have "py_str (PItem et msg fld True) = error_message (PItem et msg fld True)"
    by simp
  moreover have "error_message (PItem et msg fld fl) = error_message (PItem et msg fld fl')"
    and "py_str (PItem et msg fld fl) = py_str (PItem et msg fld fl')"
    by simp_all
  moreover have "RedditErrorItem_eq (PItem et msg fld fl) other
       = RedditErrorItem_eq (PItem et msg fld fl') other"
    and "RedditErrorItem_eq other (PItem et msg fld fl)
       = RedditErrorItem_eq other (PItem et msg fld fl')"
    by (rule eq_flag)+
  moreover have "private_get_old_attr (self\<lparr>items := PItem et msg fld fl # rest\<rparr>) attrname issued
       = private_get_old_attr (self\<lparr>items := PItem et msg fld fl' # rest\<rparr>) attrname issued"
    by (rule get_old_attr_flag)
  ultimately show ?thesis
    by blast
qed

theorem flag_is_set_by_parse_and_read_by_repr_only_witness:
  "private_parse_exception_list
     (PList [RedditErrorItem (PStr ''X'') (PStr ''Y'') PNone, PList [PStr ''A'', PStr ''B'', PNone]])
   = Inr ([PItem (PStr ''X'') (PStr ''Y'') PNone True, PItem (PStr ''A'') (PStr ''B'') (PStr []) True],
          PList [PItem (PStr ''X'') (PStr ''Y'') PNone True, PList [PStr ''A'', PStr ''B'', PNone]])
   \<and> called_from_reddit_api_exception (PItem (PStr ''X'') (PStr ''Y'') PNone True)
   \<and> py_repr (RedditErrorItem (PStr ''X'') (PStr ''Y'') PNone)
       = ''RedditErrorItem(error_type='' @ [CHR 0x27] @ ''X'' @ [CHR 0x27] @ '', message=''
           @ [CHR 0x27] @ ''Y'' @ [CHR 0x27] @ '', field=None)''
   \<and> py_repr (PItem (PStr ''X'') (PStr ''Y'') PNone True) = ''X: '' @ [CHR 0x27] @ ''Y'' @ [CHR 0x27]"
proof -
  let ?ex = "PList [RedditErrorItem (PStr ''X'') (PStr ''Y'') PNone, PList [PStr ''A'', PStr ''B'', PNone]]"
  let ?b = "[PItem (PStr ''X'') (PStr ''Y'') PNone True, PItem (PStr ''A'') (PStr ''B'') (PStr []) True]"
  let ?a = "PList [PItem (PStr ''X'') (PStr ''Y'') PNone True, PList [PStr ''A'', PStr ''B'', PNone]]"
  have run: "private_parse_exception_list ?ex = Inr (?b, ?a)"
    by (simp add: parse_exception_list_values element_value_def construct_item_def
        exceptions_after_def flag_item_def RedditErrorItem_def set_called_def
        isinstance_RedditErrorItem_def rbind_def)
  from flag_is_set_by_parse_and_read_by_repr_only
         [of ?ex ?b ?a "PStr ''X''" "PStr ''Y''" PNone] run
  show ?thesis
    by (simp add: RedditErrorItem_def str_repr_def repr_char_def Let_def)
qed

section \<open>Properties of \<open>APIException.__init__\<close>\<close>

lemma getattr_parse_exception_list:
  "APIException_getattr ''parse_exception_list'' = Inl AttributeError"
  by (simp add: APIException_getattr_def APIException_methods_def)

lemma init_items_empty: "init_items (PList []) optional_args = Inl IndexError"
  by (simp add: init_items_def isinstance_str_def isinstance_list_def rbind_def)

lemma init_items_returns:
  "items_arg \<noteq> PList [] \<Longrightarrow> \<exists>v. init_items items_arg optional_args = Inr v"
  by (cases items_arg; cases "case items_arg of PList xs \<Rightarrow> xs | _ \<Rightarrow> []")
     (auto simp: init_items_def isinstance_str_def isinstance_list_def rbind_def)

lemma init_empty_list: "APIException_init (PList []) optional_args = Inl IndexError"
  by (simp add: APIException_init_def APIException_init_body_def init_items_empty rbind_def)

lemma init_other:
  assumes "items_arg \<noteq> PList []"
  shows "APIException_init items_arg optional_args = Inl AttributeError"
proof -
  from assms obtain v where "init_items items_arg optional_args = Inr v"
    using init_items_returns by blast
  then show ?thesis
    by (simp add: APIException_init_def APIException_init_body_def
        getattr_parse_exception_list rbind_def)
qed

text \<open>
  C2, as the code has it. \<open>__init__\<close> never returns: the name \<open>parse_exception_list\<close>
  that it calls is bound nowhere in the class hierarchy, so every argument other than
  the empty list raises AttributeError before \<open>self.items\<close> is assigned; for the empty
  list, \<open>items[0]\<close> on line 220 raises IndexError before the call is reached.
\<close>

theorem init_always_raises:
  "APIException_getattr ''parse_exception_list'' = Inl AttributeError
   \<and> APIException_init (PList []) optional_args = Inl IndexError
   \<and> (items_arg \<noteq> PList [] \<longrightarrow>
        APIException_init items_arg optional_args = Inl AttributeError)
   \<and> (\<forall>e. APIException_init items_arg optional_args \<noteq> Inr e)"
  using getattr_parse_exception_list init_empty_list [of optional_args]
    init_other [of items_arg optional_args]
  by (cases "items_arg = PList []") auto

theorem init_always_raises_witness:
  "APIException_init (PList [PStr ''BAD_SOMETHING'', PStr ''invalid something'',
       PStr ''some_field'']) [] = Inl AttributeError"
  using init_always_raises
    [where items_arg = "PList [PStr ''BAD_SOMETHING'', PStr ''invalid something'',
        PStr ''some_field'']" and optional_args = "[]"]
  by simp

text \<open>
  C2 as stated (AttributeError for every input value) fails on the empty list.
\<close>

theorem init_empty_list_raises_IndexError:
  "APIException_init (PList []) [] = Inl IndexError
   \<and> APIException_init (PList []) [] \<noteq> Inl AttributeError"
  by (simp add: init_empty_list)

text \<open>
  C1 as stated fails: constructing from the single string \<open>"simple message"\<close> does not
  return an exception with one item.
\<close>

theorem init_simple_message_fails:
  "APIException_init (PStr ''simple message'') [] = Inl AttributeError"
  by (simp add: init_other)

text \<open>
  C1, as the code has it. The single string with no optional argument is wrapped as one
  raw error of length one, by \<open>__init__\<close> (line 219) and by \<open>_form_exception_list\<close>
  (line 109) alike; neither pads it, and \<open>_parse_exception_list\<close> raises IndexError on
  it at \<open>exception[1]\<close>: no item with message \<open>""\<close> and field \<open>""\<close> is built.
\<close>

theorem simple_message_is_not_padded:
  "init_items (PStr ''simple message'') [] = Inr (PList [PList [PStr ''simple message'']])
   \<and> private_form_exception_list (PStr ''simple message'') []
       = Inr (PList [PList [PStr ''simple message'']])
   \<and> private_parse_exception_list (PList [PList [PStr ''simple message'']])
       = Inl IndexError"
  by (simp add: init_items_def private_form_exception_list_def
      parse_exception_list_values element_value_def construct_item_def isinstance_str_def
      isinstance_list_def isinstance_RedditErrorItem_def rbind_def)

lemma parse_length:
  assumes "private_parse_exception_list v = Inr (baselist, after)"
  shows "\<exists>xs. py_iter v = Inr xs \<and> length baselist = length xs"
  using assms
  by (auto simp: parse_exception_list_values rbind_Inr_iff dest: element_values_length)

lemma init_items_shape:
  assumes "init_items items_arg optional_args = Inr v"
  shows "(\<exists>x xs. v = PList (x # xs)) \<or> v = PNone \<or> isinstance_RedditErrorItem v"
proof (cases items_arg)
  case (PList ys)
  with assms show ?thesis
    by (cases ys)
       (auto simp: init_items_def isinstance_str_def isinstance_list_def rbind_def
             split: if_splits)
qed (use assms in \<open>auto simp: init_items_def isinstance_str_def isinstance_list_def
        isinstance_RedditErrorItem_def\<close>)

lemma py_iter_nonempty:
  assumes "(\<exists>x xs. v = PList (x # xs)) \<or> v = PNone \<or> isinstance_RedditErrorItem v"
    and "py_iter v = Inr ys"
  shows "ys \<noteq> []"
  using assms by (cases v) (auto simp: isinstance_RedditErrorItem_def)

text \<open>
  The two steps that the source does have: the argument that lines 218--221 prepare is
  never an empty list, and \<open>_parse_exception_list\<close> keeps the length, so it returns no
  empty list on an argument so prepared.
\<close>

lemma prepared_items_parse_nonempty:
  assumes "init_items items_arg optional_args = Inr v"
    and "private_parse_exception_list v = Inr (baselist, after)"
  shows "baselist \<noteq> []"
proof -
  from parse_length [OF assms(2)] obtain xs where
    "py_iter v = Inr xs" "length baselist = length xs"
    by blast
  with py_iter_nonempty [OF init_items_shape [OF assms(1)]] show ?thesis by auto
qed

section \<open>Properties of the deprecated accessors\<close>

lemma deprecation_text_names: "sublist attrname (deprecation_text attrname)"
  unfolding deprecation_text_def by (rule sublist_appendI)

lemma get_old_attr_first:
  assumes "items self = PItem et msg fld fl # rest"
  shows "private_get_old_attr self attrname issued
    = (py_getattr (PItem et msg fld fl) attrname,
       issued @ [\<lparr>text_of = deprecation_text attrname, category = DeprecationWarning,
                   stacklevel = 3\<rparr>])"
  using assms by (simp add: private_get_old_attr_def warn_def rbind_def)

text \<open>
  C4. On an exception whose \<open>items\<close> starts with an error item, reading \<open>error_type\<close>,
  \<open>message\<close> or \<open>field\<close> issues exactly one warning, of category DeprecationWarning
  and with a text that names the attribute read, and returns that attribute of
  \<open>items[0]\<close>.
\<close>

theorem deprecated_accessors_warn_once_and_return_first:
  assumes "items self = PItem et msg fld fl # rest"
  shows "APIException_error_type self issued
           = (Inr et, issued @ [\<lparr>text_of = deprecation_text ''error_type'',
                                  category = DeprecationWarning, stacklevel = 3\<rparr>])
       \<and> APIException_message self issued
           = (Inr msg, issued @ [\<lparr>text_of = deprecation_text ''message'',
                                   category = DeprecationWarning, stacklevel = 3\<rparr>])
       \<and> APIException_field self issued
           = (Inr fld, issued @ [\<lparr>text_of = deprecation_text ''field'',
                                   category = DeprecationWarning, stacklevel = 3\<rparr>])
       \<and> sublist ''error_type'' (deprecation_text ''error_type'')
       \<and> sublist ''message'' (deprecation_text ''message'')
       \<and> sublist ''field'' (deprecation_text ''field'')"
proof -
  have "py_getattr (PItem et msg fld fl) ''error_type'' = Inr et"
    and "py_getattr (PItem et msg fld fl) ''message'' = Inr msg"
    and "py_getattr (PItem et msg fld fl) ''field'' = Inr fld"
    by (simp_all add: py_getattr_def)
  then show ?thesis
    by (simp only: APIException_error_type_def APIException_message_def
        APIException_field_def get_old_attr_first [OF assms] deprecation_text_names simp_thms)
qed

theorem deprecated_accessors_warn_once_and_return_first_witness:
  "APIException_error_type
      \<lparr>items = [PItem (PStr ''A'') (PStr ''B'') (PStr ''C'') True],
       args = [PItem (PStr ''A'') (PStr ''B'') (PStr ''C'') True]\<rparr> []
     = (Inr (PStr ''A''),
        [\<lparr>text_of = deprecation_text ''error_type'', category = DeprecationWarning,
          stacklevel = 3\<rparr>])
   \<and> fst (APIException_field
      \<lparr>items = [PItem (PStr ''A'') (PStr ''B'') (PStr ''C'') True],
       args = [PItem (PStr ''A'') (PStr ''B'') (PStr ''C'') True]\<rparr> []) = Inr (PStr ''C'')"
  using deprecated_accessors_warn_once_and_return_first
    [of "\<lparr>items = [PItem (PStr ''A'') (PStr ''B'') (PStr ''C'') True],
          args = [PItem (PStr ''A'') (PStr ''B'') (PStr ''C'') True]\<rparr>"
        "PStr ''A''" "PStr ''B''" "PStr ''C''" True "[]" "[]"]
  by simp

end
